theory Spec2Isabelle
  imports Main "HOL-Library.Word" "HOL-Library.DAList"
begin

section \<open>Library types used by server/redeemer.go\<close>

type_synonym byte = "8 word"
type_synonym bytes = "byte list"

text \<open>
  A Go byte slice is modelled by the list of its bytes; a nil slice and an empty slice are
  both the empty list (they have the same length, the same contents and the same protobuf
  encoding).
\<close>

subsection \<open>math/big\<close>

text \<open>
  A non-nil \<open>*big.Int\<close> is an \<open>int\<close>; a field of type \<open>*big.Int\<close> is an
  \<open>int option\<close>, \<open>None\<close> being the nil pointer.

  \<open>x.Bytes()\<close> is the big-endian byte string of the absolute value of \<open>x\<close>, without leading
  zero bytes (empty for 0). \<open>new(big.Int).SetBytes(b)\<close> reads \<open>b\<close> as a big-endian unsigned
  integer (0 for an empty slice).
\<close>

function nat_bytes :: "nat \<Rightarrow> bytes" where
  "nat_bytes n = (if n = 0 then [] else nat_bytes (n div 256) @ [word_of_nat (n mod 256)])"
  by pat_completeness auto
termination
  by (relation "measure id") auto

declare nat_bytes.simps [simp del]

definition Int_Bytes :: "int \<Rightarrow> bytes" where
  "Int_Bytes x = nat_bytes (nat \<bar>x\<bar>)"

definition nat_setBytes :: "bytes \<Rightarrow> nat" where
  "nat_setBytes b = foldl (\<lambda>acc d. acc * 256 + unat d) 0 b"

definition SetBytes :: "bytes \<Rightarrow> int" where
  "SetBytes b = int (nat_setBytes b)"



subsection \<open>go-ethereum common: Address and Hash\<close>

text \<open>
  \<open>Address\<close> is \<open>[20]byte\<close> and \<open>Hash\<close> is \<open>[32]byte\<close>. \<open>BytesToAddress(b)\<close> and
  \<open>BytesToHash(b)\<close> keep the last 20 (32) bytes of a longer \<open>b\<close> and copy \<open>b\<close> to the right
  end of a zeroed array; \<open>Bytes()\<close> is the whole array as a slice.
\<close>

definition setBytesN :: "nat \<Rightarrow> bytes \<Rightarrow> bytes" where
  "setBytesN n b =
     (let b' = (if length b > n then drop (length b - n) b else b)
      in replicate (n - length b') 0 @ b')"

typedef Address = "{bs :: bytes. length bs = 20}"
  morphisms Address_Bytes Abs_Address
  by (rule exI [of _ "replicate 20 0"]) simp

setup_lifting type_definition_Address

lift_definition BytesToAddress :: "bytes \<Rightarrow> Address" is "setBytesN 20"
  by (simp add: setBytesN_def Let_def)

typedef Hash = "{bs :: bytes. length bs = 32}"
  morphisms Hash_Bytes Abs_Hash
  by (rule exI [of _ "replicate 32 0"]) simp

setup_lifting type_definition_Hash

lift_definition BytesToHash :: "bytes \<Rightarrow> Hash" is "setBytesN 32"
  by (simp add: setBytesN_def Let_def)

section \<open>Tickets: the domain object and the wire message\<close>

text \<open>
  Modelled from the spec: the declarations of \<open>pm.Ticket\<close>, \<open>pm.SignedTicket\<close>
  (package pm) and of the generated messages \<open>net.Ticket\<close>, \<open>net.TicketParams\<close>,
  \<open>net.TicketSenderParams\<close>, \<open>net.TicketExpirationParams\<close> (package net) are not in
  server/redeemer.go. The records below have the fields that \<open>pmTicket\<close> and
  \<open>protoTicket\<close> read and write, with the shapes of sections 3 and 6 of the specification.
  Pointer-typed fields are options (\<open>None\<close> is nil).
\<close>

record pm_Ticket =
  Recipient :: Address
  Sender :: Address
  FaceValue :: "int option"
  WinProb :: "int option"
  SenderNonce :: "32 word"
  RecipientRandHash :: Hash
  CreationRound :: "64 word"
  CreationRoundBlockHash :: Hash
  ParamsExpirationBlock :: "int option"

record pm_SignedTicket =
  Ticket :: "pm_Ticket option"
  RecipientRand :: "int option"
  Sig :: bytes

record net_TicketParams =
  tp_Recipient :: bytes
  tp_FaceValue :: bytes
  tp_WinProb :: bytes
  tp_RecipientRandHash :: bytes
  tp_ExpirationBlock :: bytes

record net_TicketSenderParams =
  sp_SenderNonce :: "32 word"
  sp_Sig :: bytes

record net_TicketExpirationParams =
  ep_CreationRound :: "64 word"
  ep_CreationRoundBlockHash :: bytes

record net_Ticket =
  nt_Sender :: bytes
  nt_RecipientRand :: bytes
  nt_TicketParams :: "net_TicketParams option"
  nt_SenderParams :: "net_TicketSenderParams option"
  nt_ExpirationParams :: "net_TicketExpirationParams option"

text \<open>
  \<open>pmTicket\<close> (redeemer.go 359-375). It dereferences the three sub-messages of the wire
  ticket; a nil sub-message is a nil-pointer panic, the result \<open>None\<close>.
\<close>

definition pmTicket :: "net_Ticket \<Rightarrow> pm_SignedTicket option" where
  "pmTicket ticket =
     (case nt_TicketParams ticket of None \<Rightarrow> None | Some tp \<Rightarrow>
      case nt_SenderParams ticket of None \<Rightarrow> None | Some sp \<Rightarrow>
      case nt_ExpirationParams ticket of None \<Rightarrow> None | Some ep \<Rightarrow>
        Some \<lparr> Ticket = Some
                 \<lparr> Recipient = BytesToAddress (tp_Recipient tp),
                   Sender = BytesToAddress (nt_Sender ticket),
                   FaceValue = Some (SetBytes (tp_FaceValue tp)),
                   WinProb = Some (SetBytes (tp_WinProb tp)),
                   SenderNonce = sp_SenderNonce sp,
                   RecipientRandHash = BytesToHash (tp_RecipientRandHash tp),
                   CreationRound = ep_CreationRound ep,
                   CreationRoundBlockHash = BytesToHash (ep_CreationRoundBlockHash ep),
                   ParamsExpirationBlock = Some (SetBytes (tp_ExpirationBlock tp)) \<rparr>,
               RecipientRand = Some (SetBytes (nt_RecipientRand ticket)),
               Sig = sp_Sig sp \<rparr>)"

text \<open>
  \<open>protoTicket\<close> (redeemer.go 377-397). The fields of the embedded \<open>*pm.Ticket\<close> are read
  through the pointer, and \<open>Bytes()\<close> is called on three \<open>*big.Int\<close> fields: a nil
  embedded ticket or a nil integer is a nil-pointer panic, the result \<open>None\<close>. The field
  \<open>RecipientRand\<close> of the signed ticket is not read.
\<close>

definition protoTicket :: "pm_SignedTicket \<Rightarrow> net_Ticket option" where
  "protoTicket ticket =
     (case Ticket ticket of None \<Rightarrow> None | Some t \<Rightarrow>
      case FaceValue t of None \<Rightarrow> None | Some fv \<Rightarrow>
      case WinProb t of None \<Rightarrow> None | Some wp \<Rightarrow>
      case ParamsExpirationBlock t of None \<Rightarrow> None | Some eb \<Rightarrow>
        Some \<lparr> nt_Sender = Address_Bytes (Sender t),
               nt_RecipientRand = Address_Bytes (Recipient t),
               nt_TicketParams = Some
                 \<lparr> tp_Recipient = Address_Bytes (Recipient t),
                   tp_FaceValue = Int_Bytes fv,
                   tp_WinProb = Int_Bytes wp,
                   tp_RecipientRandHash = Hash_Bytes (RecipientRandHash t),
                   tp_ExpirationBlock = Int_Bytes eb \<rparr>,
               nt_SenderParams = Some
                 \<lparr> sp_SenderNonce = SenderNonce t,
                   sp_Sig = Sig ticket \<rparr>,
               nt_ExpirationParams = Some
                 \<lparr> ep_CreationRound = CreationRound t,
                   ep_CreationRoundBlockHash = Hash_Bytes (CreationRoundBlockHash t) \<rparr> \<rparr>)"

text \<open>
  A signed ticket is well formed when its embedded ticket is present and its three
  big-integer amounts are present and not negative (they are unsigned quantities of the
  payment protocol).
\<close>

definition nonneg :: "int option \<Rightarrow> bool" where
  "nonneg x = (case x of None \<Rightarrow> False | Some v \<Rightarrow> 0 \<le> v)"

definition valid_SignedTicket :: "pm_SignedTicket \<Rightarrow> bool" where
  "valid_SignedTicket ticket =
     (case Ticket ticket of None \<Rightarrow> False
      | Some t \<Rightarrow> nonneg (FaceValue t) \<and> nonneg (WinProb t) \<and> nonneg (ParamsExpirationBlock t))"

section \<open>Results of Go functions, time\<close>

text \<open>
  A Go function returns a value (\<open>Returns\<close>, for a function that returns only an error the
  value is \<open>()\<close> and stands for the nil error), returns a non-nil error (\<open>Fails\<close>), panics
  (\<open>Panics\<close>), or waits for ever on a lock or a channel (\<open>Blocks\<close>).
\<close>

datatype ('e, 'a) go_result = Returns 'a | Fails 'e | Panics | Blocks

text \<open>
  Instants (\<open>time.Time\<close>) and durations (\<open>time.Duration\<close>) are integers counting
  nanoseconds; \<open>t.Add(d)\<close> is \<open>t + d\<close> and \<open>t.Before(u)\<close> is \<open>t < u\<close>. The reading of
  \<open>time.Now()\<close> is an argument of the function that takes it.
\<close>

type_synonym time = int
type_synonym duration = int

definition cleanupLoopTime :: duration where
  "cleanupLoopTime = 1 * 3600000000000"

text \<open>
  \<open>status.Error(c, msg)\<close> of google.golang.org/grpc/status, with the codes of
  google.golang.org/grpc/codes that matter here.
\<close>

datatype codes = OK | Canceled | Unknown | DeadlineExceeded | Internal | Unavailable

datatype status = Status codes string

datatype net_QueueTicketRes = QueueTicketRes

record net_MaxFloatUpdate =
  mfu_Sender :: bytes
  mfu_MaxFloat :: bytes

section \<open>The redemption service (Redeemer)\<close>

text \<open>
  The two \<open>sync.Map\<close> fields of the struct. A \<open>sync.Map\<close> is an association list with
  distinct keys; the order of the list is the order in which \<open>Range\<close> visits the entries.
  A value stored in \<open>subs\<close> is an \<open>interface{}\<close>: either a channel of
  \<open>*net.MaxFloatUpdate\<close> (channels are numbered) or a value of another type.
\<close>

datatype sub_value = Chan nat | NotAChan

record Redeemer =
  liveSenders :: "(Address, time) alist"
  subs :: "(string, sub_value) alist"

text \<open>
  \<open>Redeemer.QueueTicket\<close> (redeemer.go 89-98). \<open>sm_QueueTicket\<close> is the
  \<open>SenderMonitor\<close>'s method: \<open>None\<close> for a nil error, \<open>Some msg\<close> for an error whose
  \<open>Error()\<close> is \<open>msg\<close>. The second component lists the senders for which
  \<open>go r.monitorMaxFloat(sender)\<close> was started.
\<close>

definition Redeemer_QueueTicket ::
  "(pm_SignedTicket \<Rightarrow> string option) \<Rightarrow> net_Ticket
     \<Rightarrow> (status, net_QueueTicketRes) go_result \<times> Address list" where
  "Redeemer_QueueTicket sm_QueueTicket ticket =
     (case pmTicket ticket of
        None \<Rightarrow> (Panics, [])
      | Some t \<Rightarrow>
          (case sm_QueueTicket t of
             Some err \<Rightarrow> (Fails (Status Internal err), [])
           | None \<Rightarrow> (Returns QueueTicketRes, [BytesToAddress (nt_Sender ticket)])))"

text \<open>
  \<open>Redeemer.monitorMaxFloat\<close> (redeemer.go 100-121), one atomic step at a time: each
  operation on the \<open>sync.Map\<close> and the call of \<open>SubscribeMaxFloat\<close> is a step, and the
  program counter says which one is next. After \<open>Load\<close> the goroutine holds the flag
  \<open>ok\<close>: \<open>PcRefresh\<close> when it was true (store and return), \<open>PcStore\<close> when it was
  false (store, then subscribe, then loop). A goroutine at \<open>PcLoop\<close> has subscribed and
  is in its \<open>select\<close> loop.
\<close>

datatype monitor_pc = PcLoad | PcRefresh | PcStore | PcSubscribe | PcLoop | PcReturned

definition Redeemer_monitorMaxFloat_step ::
  "time \<Rightarrow> Address \<Rightarrow> monitor_pc \<Rightarrow> Redeemer \<Rightarrow> monitor_pc \<times> Redeemer" where
  "Redeemer_monitorMaxFloat_step now sender pc r =
     (case pc of
        PcLoad \<Rightarrow>
          (case DAList.lookup (liveSenders r) sender of
             Some _ \<Rightarrow> (PcRefresh, r)
           | None \<Rightarrow> (PcStore, r))
      | PcRefresh \<Rightarrow> (PcReturned, r\<lparr>liveSenders := DAList.update sender now (liveSenders r)\<rparr>)
      | PcStore \<Rightarrow> (PcSubscribe, r\<lparr>liveSenders := DAList.update sender now (liveSenders r)\<rparr>)
      | PcSubscribe \<Rightarrow> (PcLoop, r)
      | PcLoop \<Rightarrow> (PcLoop, r)
      | PcReturned \<Rightarrow> (PcReturned, r))"

text \<open>
  The sweep of \<open>Redeemer.startCleanupLoop\<close> (redeemer.go 197-202), run at each tick of
  the ticker: \<open>Range\<close> visits every entry and deletes the key when the entry's time plus
  \<open>cleanupLoopTime\<close> is before the current time.
\<close>

definition Redeemer_startCleanupLoop_sweep :: "time \<Rightarrow> Redeemer \<Rightarrow> Redeemer" where
  "Redeemer_startCleanupLoop_sweep now r =
     r\<lparr>liveSenders :=
         fold (\<lambda>(key, value) m.
                 if value + cleanupLoopTime < now then DAList.delete key m else m)
              (DAList.impl_of (liveSenders r)) (liveSenders r)\<rparr>"

text \<open>
  The server as a set of goroutines: the struct, and the goroutines running
  \<open>monitorMaxFloat\<close>, each with its sender and program counter. An action is a call of
  \<open>QueueTicket\<close>, one atomic step of the goroutine with a given index, or a tick of the
  cleanup loop's ticker.
\<close>

record server =
  redeemer :: Redeemer
  goroutines :: "(Address \<times> monitor_pc) list"

datatype action = Queue net_Ticket | Run nat time | Tick time

definition exec :: "(pm_SignedTicket \<Rightarrow> string option) \<Rightarrow> action \<Rightarrow> server \<Rightarrow> server" where
  "exec sm_QueueTicket a s =
     (case a of
        Queue ticket \<Rightarrow>
          s\<lparr>goroutines := goroutines s @
               map (\<lambda>sender. (sender, PcLoad)) (snd (Redeemer_QueueTicket sm_QueueTicket ticket))\<rparr>
      | Run i now \<Rightarrow>
          (if i < length (goroutines s)
           then let (sender, pc) = goroutines s ! i;
                    (pc', r') = Redeemer_monitorMaxFloat_step now sender pc (redeemer s)
                in s\<lparr>redeemer := r', goroutines := (goroutines s)[i := (sender, pc')]\<rparr>
           else s)
      | Tick now \<Rightarrow> s\<lparr>redeemer := Redeemer_startCleanupLoop_sweep now (redeemer s)\<rparr>)"

definition run :: "(pm_SignedTicket \<Rightarrow> string option) \<Rightarrow> action list \<Rightarrow> server \<Rightarrow> server" where
  "run sm_QueueTicket as s = fold (exec sm_QueueTicket) as s"

definition monitors :: "server \<Rightarrow> Address \<Rightarrow> nat" where
  "monitors s sender = length (filter (\<lambda>g. g = (sender, PcLoop)) (goroutines s))"

definition server0 :: server where
  "server0 = \<lparr>redeemer = \<lparr>liveSenders = DAList.empty, subs = DAList.empty\<rparr>, goroutines = []\<rparr>"

text \<open>
  \<open>Redeemer.sendMaxFloatUpdate\<close> (redeemer.go 123-137). The message is built in the
  callback of \<open>Range\<close> (\<open>mkMaxFloatUpdate\<close>) and sent on the channel of each entry. The
  channels are unbuffered: a send completes when a handler is receiving on the channel
  (\<open>receiving c\<close>) and waits otherwise; the type assertion panics on a value that is not
  a channel. The result is the list of sends made, the last of which is the waiting one
  when the outcome is \<open>Blocks\<close>.
\<close>

definition mkMaxFloatUpdate :: "Address \<Rightarrow> int option \<Rightarrow> net_MaxFloatUpdate" where
  "mkMaxFloatUpdate sender maxFloat =
     \<lparr> mfu_Sender = Address_Bytes sender,
       mfu_MaxFloat = (case maxFloat of Some v \<Rightarrow> Int_Bytes v | None \<Rightarrow> []) \<rparr>"

fun send_all ::
  "(nat \<Rightarrow> bool) \<Rightarrow> net_MaxFloatUpdate \<Rightarrow> (string \<times> sub_value) list
     \<Rightarrow> (string, unit) go_result \<times> (nat \<times> net_MaxFloatUpdate) list" where
  "send_all receiving u [] = (Returns (), [])"
| "send_all receiving u ((key, NotAChan) # es) = (Panics, [])"
| "send_all receiving u ((key, Chan c) # es) =
     (if receiving c
      then (let (res, sent) = send_all receiving u es in (res, (c, u) # sent))
      else (Blocks, [(c, u)]))"

definition sendMaxFloatUpdate ::
  "(nat \<Rightarrow> bool) \<Rightarrow> Redeemer \<Rightarrow> Address \<Rightarrow> int option
     \<Rightarrow> (string, unit) go_result \<times> (nat \<times> net_MaxFloatUpdate) list" where
  "sendMaxFloatUpdate receiving r sender maxFloat =
     send_all receiving (mkMaxFloatUpdate sender maxFloat) (DAList.impl_of (subs r))"

text \<open>
  \<open>Redeemer.MonitorMaxFloat\<close> (redeemer.go 139-178). \<open>peer\<close> is the result of
  \<open>peer.FromContext\<close>: \<open>None\<close> when there is no peer, \<open>Some key\<close> with
  \<open>key = p.Addr.String()\<close> otherwise; \<open>fresh\<close> is the channel that \<open>make\<close> returns.
  The events are what the \<open>select\<close> of the loop receives, in order: an update from the
  channel together with the result of \<open>stream.Send\<close>, the closing of \<open>quit\<close>, or the end
  of the stream's context. The result is \<open>None\<close> while the handler is still in its loop.
\<close>

datatype send_result = SendOk | SendEOF | SendError string

datatype handler_event = Update net_MaxFloatUpdate send_result | Quit | CtxDone

fun Redeemer_MonitorMaxFloat_loop ::
  "string \<Rightarrow> handler_event list \<Rightarrow> Redeemer \<Rightarrow> (status, unit) go_result option \<times> Redeemer" where
  "Redeemer_MonitorMaxFloat_loop key [] r = (None, r)"
| "Redeemer_MonitorMaxFloat_loop key (Update u SendOk # es) r =
     Redeemer_MonitorMaxFloat_loop key es r"
| "Redeemer_MonitorMaxFloat_loop key (Update u SendEOF # es) r =
     (Some (Fails (Status Internal ''EOF'')), r\<lparr>subs := DAList.delete key (subs r)\<rparr>)"
| "Redeemer_MonitorMaxFloat_loop key (Update u (SendError e) # es) r =
     Redeemer_MonitorMaxFloat_loop key es r"
| "Redeemer_MonitorMaxFloat_loop key (Quit # es) r = (Some (Returns ()), r)"
| "Redeemer_MonitorMaxFloat_loop key (CtxDone # es) r = (Some (Returns ()), r)"

definition Redeemer_MonitorMaxFloat ::
  "string option \<Rightarrow> nat \<Rightarrow> handler_event list \<Rightarrow> Redeemer
     \<Rightarrow> (status, unit) go_result option \<times> Redeemer" where
  "Redeemer_MonitorMaxFloat peer fresh events r =
     (case peer of
        None \<Rightarrow> (Some (Fails (Status Internal ''context is nil'')), r)
      | Some key \<Rightarrow>
          (case DAList.lookup (subs r) key of
             None \<Rightarrow>
               Redeemer_MonitorMaxFloat_loop key events
                 (r\<lparr>subs := DAList.update key (Chan fresh) (subs r)\<rparr>)
           | Some (Chan c) \<Rightarrow> Redeemer_MonitorMaxFloat_loop key events r
           | Some NotAChan \<Rightarrow>
               (Some (Fails (Status Internal ''maxFloatUpdates is of the wrong type'')), r)))"

section \<open>The client of the redemption service (RedeemerClient)\<close>

text \<open>
  The struct's map \<open>senders\<close> (its values are pointers to a struct of a \<open>*big.Int\<close> and a
  time; every pointer is stored under one key only, so the map holds the structs) and its
  mutex \<open>mu\<close> (\<open>True\<close> when held). A function returns, with the new state, the list of
  the effects it had outside the struct: the operations on the mutex, the calls of the
  remote \<open>MaxFloat\<close> (with the sender bytes of the request) and the calls of \<open>Clear\<close> on
  the local sender-state store.
\<close>

record cache_entry =
  maxFloat :: "int option"
  lastAccess :: time

record RedeemerClient =
  senders :: "(Address, cache_entry) alist"
  mu :: bool

datatype effect = MuLock | MuUnlock | RpcMaxFloat bytes | SmClear Address

text \<open>The max-float value cached for a sender: absent when there is no entry or a nil value.\<close>

definition cached :: "RedeemerClient \<Rightarrow> Address \<Rightarrow> int option" where
  "cached r sender = Option.bind (DAList.lookup (senders r) sender) maxFloat"

text \<open>
  \<open>RedeemerClient.MaxFloat\<close> (redeemer.go 263-280). \<open>rpc_MaxFloat\<close> is the remote call:
  \<open>Inl msg\<close> for an error, \<open>Inr mfu\<close> for a reply. \<open>Lock\<close> on a held mutex waits.
\<close>

definition RedeemerClient_MaxFloat ::
  "(bytes \<Rightarrow> string + net_MaxFloatUpdate) \<Rightarrow> time \<Rightarrow> RedeemerClient \<Rightarrow> Address
     \<Rightarrow> (string, int) go_result \<times> RedeemerClient \<times> effect list" where
  "RedeemerClient_MaxFloat rpc_MaxFloat now r sender =
     (if mu r then (Blocks, r, [])
      else
        let r1 = r\<lparr>mu := True\<rparr>;
            hit = (case DAList.lookup (senders r1) sender of
                     None \<Rightarrow> None
                   | Some mf \<Rightarrow> (case maxFloat mf of None \<Rightarrow> None | Some v \<Rightarrow> Some (mf, v)))
        in case hit of
             Some (mf, v) \<Rightarrow>
               (Returns v,
                r1\<lparr>senders := DAList.update sender (mf\<lparr>lastAccess := now\<rparr>) (senders r1)\<rparr>,
                [MuLock])
           | None \<Rightarrow>
               (let r2 = r1\<lparr>mu := False\<rparr>;
                    eff = [MuLock, MuUnlock, RpcMaxFloat (Address_Bytes sender)]
                in case rpc_MaxFloat (Address_Bytes sender) of
                     Inl err \<Rightarrow> (Fails err, r2, eff)
                   | Inr mfu \<Rightarrow> (Returns (SetBytes (mfu_MaxFloat mfu)), r2, eff)))"



text \<open>
  The \<open>update\<close> case of \<open>RedeemerClient.monitorMaxFloat\<close> (redeemer.go 326-332): one
  message of the stream is written to the cache under the mutex.
\<close>

definition RedeemerClient_monitorMaxFloat_update ::
  "time \<Rightarrow> net_MaxFloatUpdate \<Rightarrow> RedeemerClient
     \<Rightarrow> (string, unit) go_result \<times> RedeemerClient \<times> effect list" where
  "RedeemerClient_monitorMaxFloat_update now u r =
     (if mu r then (Blocks, r, [])
      else (Returns (),
            r\<lparr>senders :=
                DAList.update (BytesToAddress (mfu_Sender u))
                  \<lparr>maxFloat = Some (SetBytes (mfu_MaxFloat u)), lastAccess = now\<rparr>
                  (senders r)\<rparr>,
            [MuLock, MuUnlock]))"

text \<open>
  The sweep of \<open>RedeemerClient.startCleanupLoop\<close> (redeemer.go 345-352), run at each
  tick of the ticker: under the mutex, every entry whose last access plus
  \<open>cleanupLoopTime\<close> is before the current time is deleted and \<open>Clear\<close> is called for
  its sender.
\<close>

definition RedeemerClient_startCleanupLoop_sweep ::
  "time \<Rightarrow> RedeemerClient \<Rightarrow> (string, unit) go_result \<times> RedeemerClient \<times> effect list" where
  "RedeemerClient_startCleanupLoop_sweep now r =
     (if mu r then (Blocks, r, [])
      else
        let (m, cleared) =
              fold (\<lambda>(sender, mf) (m, cleared).
                      if lastAccess mf + cleanupLoopTime < now
                      then (DAList.delete sender m, cleared @ [SmClear sender])
                      else (m, cleared))
                   (DAList.impl_of (senders r)) (senders r, [])
        in (Returns (), r\<lparr>senders := m\<rparr>, [MuLock] @ cleared @ [MuUnlock]))"

text \<open>
  The goroutines that the two \<open>Start\<close> methods launch: \<open>Redeemer.Start\<close>
  (redeemer.go 62-83) starts the cleanup loop before it serves; \<open>RedeemerClient.Start\<close>
  (redeemer.go 248-250) starts the receive loop.
\<close>

datatype goroutine = Go_monitorMaxFloat | Go_startCleanupLoop

definition Redeemer_Start_spawns :: "goroutine list" where
  "Redeemer_Start_spawns = [Go_startCleanupLoop]"

definition RedeemerClient_Start :: "goroutine list" where
  "RedeemerClient_Start = [Go_monitorMaxFloat]"

text \<open>
  A started client reacts to what its goroutines wait for: a message of the stream is
  handled by the receive loop, a tick of the cleanup ticker by the cleanup loop. The
  ticker is created by \<open>startCleanupLoop\<close>, so without that goroutine there is no tick.
  The effects are accumulated.
\<close>

datatype client_event = StreamUpdate net_MaxFloatUpdate time | CleanupTick time

definition client_react ::
  "goroutine list \<Rightarrow> client_event \<Rightarrow> RedeemerClient \<times> effect list
     \<Rightarrow> RedeemerClient \<times> effect list" where
  "client_react gs ev st =
     (case st of (r, eff) \<Rightarrow>
        (case ev of
           StreamUpdate u now \<Rightarrow>
             (if Go_monitorMaxFloat \<in> set gs
              then (case RedeemerClient_monitorMaxFloat_update now u r of
                      (_, r', eff') \<Rightarrow> (r', eff @ eff'))
              else (r, eff))
         | CleanupTick now \<Rightarrow>
             (if Go_startCleanupLoop \<in> set gs
              then (case RedeemerClient_startCleanupLoop_sweep now r of
                      (_, r', eff') \<Rightarrow> (r', eff @ eff'))
              else (r, eff))))"

definition client_run ::
  "goroutine list \<Rightarrow> client_event list \<Rightarrow> RedeemerClient \<Rightarrow> RedeemerClient \<times> effect list" where
  "client_run gs evs r = fold (client_react gs) evs (r, [])"

definition client0 :: RedeemerClient where
  "client0 = \<lparr>senders = DAList.empty, mu = False\<rparr>"

section \<open>Example inputs\<close>

text \<open>
  A signed ticket, a wire ticket, and collaborators with fixed answers: a sender monitor
  that accepts every ticket and one that rejects every ticket, an address printer, and
  sender-info sources that return a given withdraw round or a given error.
\<close>

definition ticket1 :: pm_SignedTicket where
  "ticket1 =
     \<lparr> Ticket = Some
         \<lparr> Recipient = BytesToAddress [1], Sender = BytesToAddress [2],
           FaceValue = Some 1000, WinProb = Some 5, SenderNonce = 3,
           RecipientRandHash = BytesToHash [9], CreationRound = 4,
           CreationRoundBlockHash = BytesToHash [8], ParamsExpirationBlock = Some 77 \<rparr>,
       RecipientRand = Some 7,
       Sig = [6] \<rparr>"

definition netTicket1 :: net_Ticket where
  "netTicket1 =
     \<lparr> nt_Sender = [2], nt_RecipientRand = [7],
       nt_TicketParams = Some
         \<lparr> tp_Recipient = [1], tp_FaceValue = [3, 232], tp_WinProb = [5],
           tp_RecipientRandHash = [9], tp_ExpirationBlock = [77] \<rparr>,
       nt_SenderParams = Some \<lparr> sp_SenderNonce = 3, sp_Sig = [6] \<rparr>,
       nt_ExpirationParams = Some \<lparr> ep_CreationRound = 4, ep_CreationRoundBlockHash = [8] \<rparr> \<rparr>"

definition sm_accept :: "pm_SignedTicket \<Rightarrow> string option" where
  "sm_accept t = None"

definition sm_reject :: "pm_SignedTicket \<Rightarrow> string option" where
  "sm_reject t = Some ''invalid ticket''"




text \<open>
  A client whose cache holds 500 for the sender of \<open>netTicket1\<close>, a remote \<open>MaxFloat\<close>
  that always answers 500, a service with empty maps, and a state of the service's
  handlers in which none is receiving.
\<close>

definition client1 :: RedeemerClient where
  "client1 =
     \<lparr> senders = DAList.update (BytesToAddress [2]) \<lparr>maxFloat = Some 500, lastAccess = 0\<rparr>
                   DAList.empty,
       mu = False \<rparr>"

definition rpc_fixed :: "bytes \<Rightarrow> string + net_MaxFloatUpdate" where
  "rpc_fixed b = Inr \<lparr>mfu_Sender = b, mfu_MaxFloat = [1, 244]\<rparr>"

definition redeemer0 :: Redeemer where
  "redeemer0 = \<lparr>liveSenders = DAList.empty, subs = DAList.empty\<rparr>"

definition no_receiver :: "nat \<Rightarrow> bool" where
  "no_receiver c = False"

section \<open>Wire codec: round trip\<close>

lemma length_setBytesN [simp]: "length (setBytesN n b) = n"
  by (simp add: setBytesN_def Let_def)


lemma nat_setBytes_append:
  "nat_setBytes (xs @ [d]) = nat_setBytes xs * 256 + unat d"
  by (simp add: nat_setBytes_def)

lemma nat_bytes_0 [simp]: "nat_bytes 0 = []"
  by (simp add: nat_bytes.simps)

lemma nat_setBytes_nat_bytes: "nat_setBytes (nat_bytes n) = n"
proof (induction n rule: nat_bytes.induct)
  case (1 n)
  show ?case
  proof (cases "n = 0")
    case True
    then show ?thesis
      by (simp add: nat_setBytes_def)
  next
    case False
    have "unat (word_of_nat (n mod 256) :: byte) = n mod 256"
      by (simp add: unat_of_nat)
    with False "1.IH" show ?thesis
      by (simp add: nat_bytes.simps [of n] nat_setBytes_append)
  qed
qed

lemma SetBytes_Int_Bytes: "SetBytes (Int_Bytes x) = \<bar>x\<bar>"
  by (simp add: SetBytes_def Int_Bytes_def nat_setBytes_nat_bytes)

lemma setBytesN_exact: "length b = n \<Longrightarrow> setBytesN n b = b"
  by (simp add: setBytesN_def)

lemma BytesToAddress_Bytes: "BytesToAddress (Address_Bytes a) = a"
  by transfer (simp add: setBytesN_exact)

lemma BytesToHash_Bytes: "BytesToHash (Hash_Bytes h) = h"
  by transfer (simp add: setBytesN_exact)

lemma nat_setBytes_zeros: "nat_setBytes (replicate n 0 @ b) = nat_setBytes b"
  by (induction n) (simp_all add: nat_setBytes_def)

lemma SetBytes_BytesToAddress_1: "SetBytes (Address_Bytes (BytesToAddress [1])) = 1"
  by (simp add: BytesToAddress.rep_eq setBytesN_def SetBytes_def nat_setBytes_zeros)
     (simp add: nat_setBytes_def)

text \<open>
  Claim C1. For every well-formed signed ticket, encoding with \<open>protoTicket\<close> and decoding
  with \<open>pmTicket\<close> succeeds and gives back the ticket with every field unchanged (sender,
  recipient, face value, win probability, sender nonce, recipient-rand hash, creation
  round, creation-round block hash, expiration block, signature), except
  \<open>RecipientRand\<close>: the recipient-rand field of the wire ticket holds the bytes of the
  recipient address, and the decoded \<open>RecipientRand\<close> is these 20 bytes read as a
  big-endian integer.
\<close>

theorem pmTicket_protoTicket_roundtrip:
  assumes "valid_SignedTicket ticket" and "Ticket ticket = Some t"
  shows "\<exists>w. protoTicket ticket = Some w
           \<and> nt_RecipientRand w = Address_Bytes (Recipient t)
           \<and> pmTicket w =
               Some (ticket\<lparr>RecipientRand := Some (SetBytes (Address_Bytes (Recipient t)))\<rparr>)"
proof -
  from assms obtain fv wp eb where
    f: "FaceValue t = Some fv" "WinProb t = Some wp" "ParamsExpirationBlock t = Some eb"
    and n: "0 \<le> fv" "0 \<le> wp" "0 \<le> eb"
    by (auto simp: valid_SignedTicket_def nonneg_def split: option.splits)
  have t: "t = \<lparr> Recipient = Recipient t, Sender = Sender t, FaceValue = Some fv,
                 WinProb = Some wp, SenderNonce = SenderNonce t,
                 RecipientRandHash = RecipientRandHash t, CreationRound = CreationRound t,
                 CreationRoundBlockHash = CreationRoundBlockHash t,
                 ParamsExpirationBlock = Some eb \<rparr>"
    using f by (cases t) simp
  show ?thesis
    using assms(2) f n
    by (simp add: protoTicket_def pmTicket_def SetBytes_Int_Bytes BytesToAddress_Bytes
        BytesToHash_Bytes t [symmetric])
qed

theorem pmTicket_protoTicket_roundtrip_witness:
  "valid_SignedTicket ticket1
   \<and> RecipientRand ticket1 = Some 7
   \<and> Option.bind (protoTicket ticket1) pmTicket = Some (ticket1\<lparr>RecipientRand := Some 1\<rparr>)"
  using pmTicket_protoTicket_roundtrip [of ticket1 "the (Ticket ticket1)"]
  by (auto simp: ticket1_def valid_SignedTicket_def nonneg_def SetBytes_BytesToAddress_1)

text \<open>
  The amounts must not be negative: \<open>Bytes()\<close> drops the sign, so a negative face value
  comes back as its absolute value.
\<close>

lemma roundtrip_drops_sign:
  "Ticket ticket = Some t \<Longrightarrow> FaceValue t = Some fv \<Longrightarrow> WinProb t = Some wp
   \<Longrightarrow> ParamsExpirationBlock t = Some eb
   \<Longrightarrow> \<exists>t' s'. Option.bind (protoTicket ticket) pmTicket = Some s' \<and> Ticket s' = Some t'
          \<and> FaceValue t' = Some \<bar>fv\<bar>"
  by (simp add: protoTicket_def pmTicket_def SetBytes_Int_Bytes)

section \<open>ValidateSender\<close>







section \<open>Redeemer.QueueTicket\<close>

text \<open>
  Claim C5. When the sender monitor rejects the decoded ticket with an error of message
  \<open>e\<close>, \<open>QueueTicket\<close> returns the status with code Internal and message \<open>e\<close>, no
  acknowledgement, and starts no goroutine; when the sender monitor accepts it,
  \<open>QueueTicket\<close> returns the empty acknowledgement (and a nil error) and starts
  \<open>monitorMaxFloat\<close> for the ticket's sender.
\<close>

theorem Redeemer_QueueTicket_result:
  "(pmTicket ticket = Some t \<longrightarrow> sm_QueueTicket t = Some e \<longrightarrow>
      Redeemer_QueueTicket sm_QueueTicket ticket = (Fails (Status Internal e), []))
   \<and> (pmTicket ticket = Some t \<longrightarrow> sm_QueueTicket t = None \<longrightarrow>
      Redeemer_QueueTicket sm_QueueTicket ticket =
        (Returns QueueTicketRes, [BytesToAddress (nt_Sender ticket)]))"
  by (simp add: Redeemer_QueueTicket_def)

theorem Redeemer_QueueTicket_result_witness:
  "pmTicket netTicket1 \<noteq> None
   \<and> Redeemer_QueueTicket sm_reject netTicket1 = (Fails (Status Internal ''invalid ticket''), [])
   \<and> Redeemer_QueueTicket sm_accept netTicket1 = (Returns QueueTicketRes, [BytesToAddress [2]])"
  using Redeemer_QueueTicket_result [of netTicket1 "the (pmTicket netTicket1)" sm_reject
          "''invalid ticket''"]
        Redeemer_QueueTicket_result [of netTicket1 "the (pmTicket netTicket1)" sm_accept]
  by (simp add: netTicket1_def pmTicket_def sm_reject_def sm_accept_def)

section \<open>The liveness sweep of the service\<close>

lemma fold_delete_lookup:
  "DAList.lookup (fold (\<lambda>(key, value) m. if P value then DAList.delete key m else m) xs m) k =
     (if \<exists>v. (k, v) \<in> set xs \<and> P v then None else DAList.lookup m k)"
  by (induction xs arbitrary: m) auto

lemma lookup_impl_of: "(k, v) \<in> set (DAList.impl_of m) \<longleftrightarrow> DAList.lookup m k = Some v"
  by (simp add: DAList.lookup.rep_eq)

text \<open>
  Claim C7. After one sweep at time \<open>now\<close>, a sender has no entry in the liveness map
  if and only if it had none before or its entry's last access plus the liveness window
  (\<open>cleanupLoopTime\<close>) is before \<open>now\<close>; every other entry is still there with its
  time unchanged, whatever the other entries are.
\<close>

theorem Redeemer_cleanup_lookup:
  "DAList.lookup (liveSenders (Redeemer_startCleanupLoop_sweep now r)) sender =
     (case DAList.lookup (liveSenders r) sender of
        None \<Rightarrow> None
      | Some t \<Rightarrow> if t + cleanupLoopTime < now then None else Some t)"
  by (simp add: Redeemer_startCleanupLoop_sweep_def fold_delete_lookup lookup_impl_of split: option.split)

section \<open>RedeemerClient.MaxFloat\<close>

lemma cached_Some_iff:
  "cached r sender = Some v \<longleftrightarrow>
     (\<exists>mf. DAList.lookup (senders r) sender = Some mf \<and> maxFloat mf = Some v)"
  by (cases "DAList.lookup (senders r) sender") (simp_all add: cached_def)

lemma MaxFloat_hit:
  assumes "\<not> mu r" and "DAList.lookup (senders r) sender = Some mf" and "maxFloat mf = Some v"
  shows "RedeemerClient_MaxFloat rpc_MaxFloat now r sender =
           (Returns v,
            r\<lparr>mu := True, senders := DAList.update sender (mf\<lparr>lastAccess := now\<rparr>) (senders r)\<rparr>,
            [MuLock])"
  using assms by (simp add: RedeemerClient_MaxFloat_def Let_def)

lemma MaxFloat_miss:
  assumes "\<not> mu r" and "cached r sender = None"
  shows "RedeemerClient_MaxFloat rpc_MaxFloat now r sender =
           (case rpc_MaxFloat (Address_Bytes sender) of
              Inl err \<Rightarrow> Fails err
            | Inr mfu \<Rightarrow> Returns (SetBytes (mfu_MaxFloat mfu)),
            r, [MuLock, MuUnlock, RpcMaxFloat (Address_Bytes sender)])"
proof -
  have r: "r\<lparr>mu := True, mu := False\<rparr> = r"
    using assms(1) by simp
  show ?thesis
    using assms
    by (cases "DAList.lookup (senders r) sender")
       (simp_all add: RedeemerClient_MaxFloat_def Let_def cached_def r split: sum.split)
qed

lemma MaxFloat_blocked:
  "mu r \<Longrightarrow> RedeemerClient_MaxFloat rpc_MaxFloat now r sender = (Blocks, r, [])"
  by (simp add: RedeemerClient_MaxFloat_def)


lemma SetBytes_500: "SetBytes [1, 244] = 500"
  by (simp add: SetBytes_def nat_setBytes_def)



text \<open>
  Claim C4. Let the mutex be free when \<open>MaxFloat\<close> is called. On the cache-hit path the
  mutex is locked and never unlocked: it is still held when the function has returned, and
  any later call of \<open>MaxFloat\<close> waits on it. On the cache-miss path the mutex is locked,
  then unlocked, and only then is the remote call made; the mutex is free afterwards.
\<close>

theorem RedeemerClient_MaxFloat_lock:
  assumes "\<not> mu r"
  shows "case RedeemerClient_MaxFloat rpc_MaxFloat now r sender of
           (res, r', eff) \<Rightarrow>
             (if cached r sender \<noteq> None
              then eff = [MuLock] \<and> mu r'
                   \<and> RedeemerClient_MaxFloat rpc_MaxFloat' now' r' sender' = (Blocks, r', [])
              else eff = [MuLock, MuUnlock, RpcMaxFloat (Address_Bytes sender)] \<and> \<not> mu r')"
proof (cases "cached r sender")
  case None
  with assms show ?thesis by (simp add: MaxFloat_miss)
next
  case (Some v)
  then obtain mf where "DAList.lookup (senders r) sender = Some mf" "maxFloat mf = Some v"
    by (auto simp: cached_Some_iff)
  with assms Some show ?thesis
    by (simp add: MaxFloat_hit MaxFloat_blocked)
qed

theorem RedeemerClient_MaxFloat_lock_witness:
  "\<not> mu client1 \<and> \<not> mu client0
   \<and> mu (fst (snd (RedeemerClient_MaxFloat rpc_fixed 9 client1 (BytesToAddress [2]))))
   \<and> snd (snd (RedeemerClient_MaxFloat rpc_fixed 9 client1 (BytesToAddress [2]))) = [MuLock]
   \<and> \<not> mu (fst (snd (RedeemerClient_MaxFloat rpc_fixed 9 client0 (BytesToAddress [2]))))
   \<and> snd (snd (RedeemerClient_MaxFloat rpc_fixed 9 client0 (BytesToAddress [2]))) =
       [MuLock, MuUnlock, RpcMaxFloat (Address_Bytes (BytesToAddress [2]))]"
  using RedeemerClient_MaxFloat_lock [where r = client1 and sender = "BytesToAddress [2]"
          and rpc_MaxFloat = rpc_fixed and now = 9 and rpc_MaxFloat' = rpc_fixed
          and now' = 10 and sender' = "BytesToAddress [2]"]
        RedeemerClient_MaxFloat_lock [where r = client0 and sender = "BytesToAddress [2]"
          and rpc_MaxFloat = rpc_fixed and now = 9 and rpc_MaxFloat' = rpc_fixed
          and now' = 10 and sender' = "BytesToAddress [2]"]
  by (auto simp: client1_def client0_def cached_def split: prod.splits)

section \<open>Broadcast of max-float updates\<close>

lemma Int_Bytes_0: "Int_Bytes 0 = []"
  by (simp add: Int_Bytes_def)

lemma SetBytes_Nil: "SetBytes [] = 0"
  by (simp add: SetBytes_def nat_setBytes_def)

lemma mkMaxFloatUpdate_nil_zero:
  "mkMaxFloatUpdate sender None = mkMaxFloatUpdate sender (Some 0)"
  by (simp add: mkMaxFloatUpdate_def Int_Bytes_0)

text \<open>
  Claim C9. The update built for a nil max float and the update built for the max float 0
  are the same message, with an empty max-float byte string, and broadcasting either has
  the same result. The client's receive loop (with the mutex free) decodes either into
  the cached integer 0 for the sender.
\<close>

theorem nil_and_zero_maxFloat_indistinguishable:
  "mkMaxFloatUpdate sender None = mkMaxFloatUpdate sender (Some 0)
   \<and> mfu_MaxFloat (mkMaxFloatUpdate sender None) = []
   \<and> sendMaxFloatUpdate receiving r sender None = sendMaxFloatUpdate receiving r sender (Some 0)
   \<and> (\<not> mu c \<longrightarrow>
        cached (fst (snd (RedeemerClient_monitorMaxFloat_update now (mkMaxFloatUpdate sender None) c))) sender
          = Some 0
        \<and> cached (fst (snd (RedeemerClient_monitorMaxFloat_update now (mkMaxFloatUpdate sender (Some 0)) c))) sender
          = Some 0)"
  by (simp add: sendMaxFloatUpdate_def mkMaxFloatUpdate_nil_zero [of sender])
     (simp add: mkMaxFloatUpdate_def RedeemerClient_monitorMaxFloat_update_def cached_def Int_Bytes_0
        SetBytes_Nil BytesToAddress_Bytes)

theorem nil_and_zero_maxFloat_indistinguishable_witness:
  "\<not> mu client0
   \<and> cached (fst (snd (RedeemerClient_monitorMaxFloat_update 9
        (mkMaxFloatUpdate (BytesToAddress [2]) None) client0))) (BytesToAddress [2]) = Some 0
   \<and> cached (fst (snd (RedeemerClient_monitorMaxFloat_update 9
        (mkMaxFloatUpdate (BytesToAddress [2]) (Some 0)) client0))) (BytesToAddress [2]) = Some 0"
  using nil_and_zero_maxFloat_indistinguishable [where c = client0 and now = 9
          and sender = "BytesToAddress [2]"]
  by (simp add: client0_def)

section \<open>Redeemer.MonitorMaxFloat and the subscriber registry\<close>

lemma send_all_stuck:
  "(key, Chan c) \<in> set es \<Longrightarrow> \<not> receiving c \<Longrightarrow> fst (send_all receiving u es) \<noteq> Returns ()"
  by (induction receiving u es rule: send_all.induct) (auto split: prod.splits)

lemma sendMaxFloatUpdate_stuck:
  assumes "DAList.lookup (subs r) key = Some (Chan c)" and "\<not> receiving c"
  shows "fst (sendMaxFloatUpdate receiving r sender upd) \<noteq> Returns ()"
proof -
  from assms(1) have "(key, Chan c) \<in> set (DAList.impl_of (subs r))"
    by (simp add: lookup_impl_of)
  from this assms(2) have "fst (send_all receiving (mkMaxFloatUpdate sender upd)
      (DAList.impl_of (subs r))) \<noteq> Returns ()"
    by (rule send_all_stuck)
  then show ?thesis
    by (simp add: sendMaxFloatUpdate_def)
qed

lemma MonitorMaxFloat_loop_cases:
  "Redeemer_MonitorMaxFloat_loop key events r = (res, r') \<Longrightarrow>
     (res = Some (Fails (Status Internal ''EOF'')) \<and> r' = r\<lparr>subs := DAList.delete key (subs r)\<rparr>)
     \<or> ((res = None \<or> res = Some (Returns ())) \<and> r' = r)"
  by (induction key events r rule: Redeemer_MonitorMaxFloat_loop.induct) auto

lemma MonitorMaxFloat_cases:
  assumes "Redeemer_MonitorMaxFloat (Some key) fresh events r = (res, r')"
  shows "(res = Some (Fails (Status Internal ''EOF'')) \<and> DAList.lookup (subs r') key = None)
       \<or> (res = Some (Fails (Status Internal ''maxFloatUpdates is of the wrong type''))
            \<and> DAList.lookup (subs r') key = Some NotAChan)
       \<or> ((res = None \<or> res = Some (Returns ()))
            \<and> (\<exists>c. DAList.lookup (subs r') key = Some (Chan c)))"
proof (cases "DAList.lookup (subs r) key")
  case None
  let ?r1 = "r\<lparr>subs := DAList.update key (Chan fresh) (subs r)\<rparr>"
  from assms None have "Redeemer_MonitorMaxFloat_loop key events ?r1 = (res, r')"
    by (simp add: Redeemer_MonitorMaxFloat_def)
  from MonitorMaxFloat_loop_cases [OF this] show ?thesis
    by auto
next
  case (Some x)
  show ?thesis
  proof (cases x)
    case (Chan c)
    with assms Some have "Redeemer_MonitorMaxFloat_loop key events r = (res, r')"
      by (simp add: Redeemer_MonitorMaxFloat_def)
    from MonitorMaxFloat_loop_cases [OF this] Some Chan show ?thesis
      by auto
  next
    case NotAChan
    with assms Some show ?thesis
      by (auto simp: Redeemer_MonitorMaxFloat_def)
  qed
qed

text \<open>
  Claim C10. Whatever the handler \<open>MonitorMaxFloat\<close> of a peer receives, the peer's entry
  is absent from the subscriber registry afterwards if and only if the handler returned
  the end-of-stream error of a send. When the handler returns nil (the stream's context
  ended or the service was shut down), the peer's channel is still registered, and a
  later broadcast, with no handler receiving on that channel, does not complete: it
  waits in a send (or has panicked or waited at an earlier entry).
\<close>

theorem MonitorMaxFloat_registry:
  assumes "Redeemer_MonitorMaxFloat (Some key) fresh events r = (res, r')"
  shows "(DAList.lookup (subs r') key = None \<longleftrightarrow> res = Some (Fails (Status Internal ''EOF'')))
       \<and> (res = Some (Returns ()) \<longrightarrow>
            (\<exists>c. DAList.lookup (subs r') key = Some (Chan c)
               \<and> (\<not> receiving c \<longrightarrow>
                    fst (sendMaxFloatUpdate receiving r' sender upd) \<noteq> Returns ())))"
  using MonitorMaxFloat_cases [OF assms]
  by (auto dest: sendMaxFloatUpdate_stuck)

theorem MonitorMaxFloat_registry_witness:
  "Redeemer_MonitorMaxFloat (Some ''10.0.0.1:4000'') 0
       [Update (mkMaxFloatUpdate (BytesToAddress [2]) (Some 500)) SendOk, CtxDone] redeemer0 =
     (Some (Returns ()),
      redeemer0\<lparr>subs := DAList.update ''10.0.0.1:4000'' (Chan 0) (subs redeemer0)\<rparr>)
   \<and> DAList.lookup
         (subs (redeemer0\<lparr>subs := DAList.update ''10.0.0.1:4000'' (Chan 0) (subs redeemer0)\<rparr>))
         ''10.0.0.1:4000'' = Some (Chan 0)
   \<and> \<not> no_receiver 0
   \<and> fst (sendMaxFloatUpdate no_receiver
            (redeemer0\<lparr>subs := DAList.update ''10.0.0.1:4000'' (Chan 0) (subs redeemer0)\<rparr>)
            (BytesToAddress [2]) (Some 501)) \<noteq> Returns ()
   \<and> sendMaxFloatUpdate no_receiver
         (redeemer0\<lparr>subs := DAList.update ''10.0.0.1:4000'' (Chan 0) (subs redeemer0)\<rparr>)
         (BytesToAddress [2]) (Some 501) =
       (Blocks, [(0, mkMaxFloatUpdate (BytesToAddress [2]) (Some 501))])"
  using MonitorMaxFloat_registry [where key = "''10.0.0.1:4000''" and fresh = 0
          and events = "[Update (mkMaxFloatUpdate (BytesToAddress [2]) (Some 500)) SendOk, CtxDone]"
          and r = redeemer0 and res = "Some (Returns ())"
          and r' = "redeemer0\<lparr>subs := DAList.update ''10.0.0.1:4000'' (Chan 0) (subs redeemer0)\<rparr>"
          and receiving = no_receiver and sender = "BytesToAddress [2]" and upd = "Some 501"]
  by (simp add: Redeemer_MonitorMaxFloat_def redeemer0_def no_receiver_def
      sendMaxFloatUpdate_def DAList.update.rep_eq DAList.empty.rep_eq)

section \<open>One monitor per sender\<close>

lemma QueueTicket_netTicket1:
  "Redeemer_QueueTicket sm_accept netTicket1 = (Returns QueueTicketRes, [BytesToAddress [2]])"
  by (simp add: Redeemer_QueueTicket_def netTicket1_def pmTicket_def sm_accept_def)

text \<open>
  What holds of the code: a \<open>monitorMaxFloat\<close> goroutine whose \<open>Load\<close> finds the sender's
  entry stores the current time and returns, without subscribing; and when the goroutine
  of a first ticket has stored its entry before the goroutine of a second ticket loads,
  there is one subscribed monitor.
\<close>

lemma monitorMaxFloat_refresh_only:
  assumes "DAList.lookup (liveSenders r) sender = Some t"
  shows "Redeemer_monitorMaxFloat_step now sender PcLoad r = (PcRefresh, r)"
    and "Redeemer_monitorMaxFloat_step now' sender PcRefresh r =
           (PcReturned, r\<lparr>liveSenders := DAList.update sender now' (liveSenders r)\<rparr>)"
  using assms by (simp_all add: Redeemer_monitorMaxFloat_step_def)

lemma sequential_QueueTicket_one_monitor:
  "monitors (run sm_accept
       [Queue netTicket1, Run 0 10, Run 0 11, Run 0 12,
        Queue netTicket1, Run 1 13, Run 1 14, Run 1 15] server0)
     (BytesToAddress [2]) = 1"
  by (simp add: run_def exec_def QueueTicket_netTicket1 Redeemer_monitorMaxFloat_step_def server0_def
      monitors_def DAList.lookup_update)

text \<open>
  Claim C6 fails on the code. \<open>monitorMaxFloat\<close> tests the liveness map with \<open>Load\<close> and
  writes it with a separate \<open>Store\<close>. Two tickets of one unseen sender are queued, and the
  two goroutines both load (each finds no entry) before either stores: both store, both
  subscribe, and two monitors for the sender are in their loops.
\<close>

theorem concurrent_QueueTicket_two_monitors:
  "monitors (run sm_accept
       [Queue netTicket1, Queue netTicket1,
        Run 0 10, Run 1 11, Run 0 12, Run 1 13, Run 0 14, Run 1 15] server0)
     (BytesToAddress [2]) = 2"
  by (simp add: run_def exec_def QueueTicket_netTicket1 Redeemer_monitorMaxFloat_step_def server0_def
      monitors_def DAList.lookup_update)

text \<open>
  The same happens without any interleaving when the sweep has removed the sender's entry
  between two tickets: the first monitor is still in its loop (only \<open>quit\<close> ends it), and
  the second ticket starts another.
\<close>

lemma evicted_QueueTicket_two_monitors:
  "monitors (run sm_accept
       [Queue netTicket1, Run 0 10, Run 0 11, Run 0 12,
        Tick (12 + cleanupLoopTime + 1),
        Queue netTicket1, Run 1 (13 + cleanupLoopTime), Run 1 (14 + cleanupLoopTime),
        Run 1 (15 + cleanupLoopTime)] server0)
     (BytesToAddress [2]) = 2"
  by (simp add: run_def exec_def QueueTicket_netTicket1 Redeemer_monitorMaxFloat_step_def server0_def
      monitors_def DAList.lookup_update Redeemer_startCleanupLoop_sweep_def fold_delete_lookup lookup_impl_of)

section \<open>The cleanup sweep of the client\<close>

lemma fold_delete_clear:
  "fold (\<lambda>(sender, mf) (m, cleared).
           if P mf then (DAList.delete sender m, cleared @ [SmClear sender]) else (m, cleared))
        xs (m, cl) =
     (fold (\<lambda>(sender, mf) m. if P mf then DAList.delete sender m else m) xs m,
      cl @ map (\<lambda>(sender, mf). SmClear sender) (filter (\<lambda>(sender, mf). P mf) xs))"
  by (induction xs arbitrary: m cl) auto

lemma count_clear:
  "distinct (map fst xs) \<Longrightarrow>
   count_list (map (\<lambda>(sender, mf). SmClear sender) (filter (\<lambda>(sender, mf). P mf) xs)) (SmClear s) =
     (if \<exists>mf. (s, mf) \<in> set xs \<and> P mf then 1 else 0)"
  by (induction xs) (auto simp: rev_image_eqI)

text \<open>
  What holds of the code: one sweep of the client's cleanup loop, run with the mutex free,
  deletes exactly the entries whose last access plus \<open>cleanupLoopTime\<close> is before the
  current time and calls \<open>Clear\<close> exactly once for each of them, and for no other sender.
\<close>

lemma RedeemerClient_cleanup_sweep:
  assumes "\<not> mu r"
  shows "\<exists>r' eff. RedeemerClient_startCleanupLoop_sweep now r = (Returns (), r', eff) \<and> \<not> mu r'
     \<and> DAList.lookup (senders r') sender =
         (case DAList.lookup (senders r) sender of
            None \<Rightarrow> None
          | Some mf \<Rightarrow> if lastAccess mf + cleanupLoopTime < now then None else Some mf)
     \<and> count_list eff (SmClear sender) =
         (case DAList.lookup (senders r) sender of
            None \<Rightarrow> 0
          | Some mf \<Rightarrow> if lastAccess mf + cleanupLoopTime < now then 1 else 0)"
  using assms
  by (simp add: RedeemerClient_startCleanupLoop_sweep_def fold_delete_clear fold_delete_lookup count_clear
      lookup_impl_of split: option.split)

text \<open>
  With the goroutines that \<open>RedeemerClient.Start\<close> launches, no event deletes a cache
  entry or calls \<open>Clear\<close>.
\<close>

lemma client_react_Start:
  assumes "client_react RedeemerClient_Start ev (r, eff) = (r', eff')"
  shows "(DAList.lookup (senders r) s \<noteq> None \<longrightarrow> DAList.lookup (senders r') s \<noteq> None)
       \<and> (SmClear s \<in> set eff' \<longrightarrow> SmClear s \<in> set eff)"
  using assms
  by (cases ev)
     (auto simp: client_react_def RedeemerClient_Start_def RedeemerClient_monitorMaxFloat_update_def
        DAList.lookup_update split: if_splits)

lemma client_run_Start_keeps:
  assumes "DAList.lookup (senders r) s \<noteq> None" and "SmClear s \<notin> set eff"
  shows "DAList.lookup (senders (fst (fold (client_react RedeemerClient_Start) evs (r, eff)))) s
           \<noteq> None
       \<and> SmClear s \<notin> set (snd (fold (client_react RedeemerClient_Start) evs (r, eff)))"
  using assms
proof (induction evs arbitrary: r eff)
  case Nil
  then show ?case by simp
next
  case (Cons ev evs)
  obtain r' eff' where st: "client_react RedeemerClient_Start ev (r, eff) = (r', eff')"
    by (cases "client_react RedeemerClient_Start ev (r, eff)")
  from client_react_Start [OF st, of s] Cons.prems
  have "DAList.lookup (senders r') s \<noteq> None" "SmClear s \<notin> set eff'"
    by auto
  from Cons.IH [OF this] st show ?case
    by simp
qed

text \<open>
  Claim C8 fails on the code. \<open>RedeemerClient.Start\<close> launches the receive loop only;
  \<open>startCleanupLoop\<close> is not launched, so its ticker and its sweep do not exist. A started
  client receives an update for a sender at time 0 and nothing more for that sender: when
  one and two liveness windows have passed the entry is still in the cache, and \<open>Clear\<close>
  has not been called.
\<close>

theorem started_client_never_sweeps:
  "Go_startCleanupLoop \<notin> set RedeemerClient_Start
   \<and> client_run RedeemerClient_Start
        [StreamUpdate \<lparr>mfu_Sender = [2], mfu_MaxFloat = [1, 244]\<rparr> 0,
         CleanupTick (cleanupLoopTime + 1), CleanupTick (2 * cleanupLoopTime + 1)] client0 =
       (\<lparr>senders = DAList.update (BytesToAddress [2]) \<lparr>maxFloat = Some 500, lastAccess = 0\<rparr>
                     DAList.empty,
         mu = False\<rparr>,
        [MuLock, MuUnlock])"
  by (simp add: client_run_def client_react_def RedeemerClient_Start_def
      RedeemerClient_monitorMaxFloat_update_def client0_def SetBytes_500)

text \<open>
  Had \<open>Start\<close> launched the cleanup loop as well, as \<open>Redeemer.Start\<close> does for the
  service, the first tick after the window would have deleted the entry and called
  \<open>Clear\<close> once.
\<close>

lemma client_with_cleanup_loop_sweeps:
  "client_run (RedeemerClient_Start @ Redeemer_Start_spawns)
        [StreamUpdate \<lparr>mfu_Sender = [2], mfu_MaxFloat = [1, 244]\<rparr> 0,
         CleanupTick (cleanupLoopTime + 1), CleanupTick (2 * cleanupLoopTime + 1)] client0 =
       (\<lparr>senders = DAList.empty, mu = False\<rparr>,
        [MuLock, MuUnlock, MuLock, SmClear (BytesToAddress [2]), MuUnlock, MuLock, MuUnlock])"
  by (simp add: client_run_def client_react_def RedeemerClient_Start_def Redeemer_Start_spawns_def
      RedeemerClient_monitorMaxFloat_update_def client0_def SetBytes_500 RedeemerClient_startCleanupLoop_sweep_def
      DAList.update.rep_eq DAList.empty.rep_eq DAList.delete.rep_eq DAList.alist_eq_iff)

end
